theory Spec2Isabelle
  imports Complex_Main "HOL-Library.Word"
begin

section \<open>JavaScript values\<close>

text \<open>
  The handlers of \<^verbatim>\<open>src/example-fixes.js\<close> work on JavaScript values. A JavaScript
  string is a sequence of UTF-16 code units, so \<^verbatim>\<open>substring\<close> counts code units and
  \<^verbatim>\<open>Buffer.byteLength(s, 'utf8')\<close> counts the bytes of their UTF-8 encoding.
  Numbers are restricted to the integers (which doubles hold exactly below \<open>2 ^ 53\<close>)
  and to the two non-finite results that the arithmetic of the handlers can produce.
  An object is the list of its own properties in the order in which JavaScript
  enumerates them.
\<close>

type_synonym jsstring = "16 word list"

definition js :: "string \<Rightarrow> jsstring" where
  "js s = map of_char s"

datatype jsval =
    JUndefined
  | JNull
  | JBool bool
  | JNum int
  | JNaN
  | JInfinity
  | JStr jsstring
  | JArr "jsval list"
  | JObj "(jsstring \<times> jsval) list"

type_synonym props = "(jsstring \<times> jsval) list"

text \<open>Reading a property: \<^verbatim>\<open>data.name\<close> is \<^verbatim>\<open>undefined\<close> when the object has no such property.\<close>

definition get_prop :: "props \<Rightarrow> jsstring \<Rightarrow> jsval" where
  "get_prop ps k = (case map_of ps k of None \<Rightarrow> JUndefined | Some v \<Rightarrow> v)"

text \<open>
  The own property keys of an object are enumerated with the array indices first, in
  ascending order, and then the other keys in the order of their creation. An array
  index is a key that is the decimal numeral, without a leading zero, of a number below
  \<open>2 ^ 32 - 1\<close>. (Keys that are symbols do not occur.)
\<close>

definition is_digit :: "16 word \<Rightarrow> bool" where
  "is_digit c = (0x30 \<le> c \<and> c \<le> 0x39)"

definition numeral_value :: "jsstring \<Rightarrow> nat" where
  "numeral_value k = foldl (\<lambda>n c. 10 * n + unat (c - 0x30)) 0 k"

definition array_index :: "jsstring \<Rightarrow> nat option" where
  "array_index k =
     (case k of
        [] \<Rightarrow> None
      | c # cs \<Rightarrow>
          if list_all is_digit k \<and> (c \<noteq> 0x30 \<or> cs = []) \<and> numeral_value k < 4294967295
          then Some (numeral_value k) else None)"

text \<open>Creating a property with a new key puts it at its place in this order.\<close>

fun insert_prop :: "jsstring \<Rightarrow> jsval \<Rightarrow> props \<Rightarrow> props" where
  "insert_prop k v [] = [(k, v)]"
| "insert_prop k v ((k', v') # ps) =
     (case array_index k of
        None \<Rightarrow> (k', v') # insert_prop k v ps
      | Some i \<Rightarrow>
          (case array_index k' of
             None \<Rightarrow> (k, v) # (k', v') # ps
           | Some j \<Rightarrow> if i < j then (k, v) # (k', v') # ps
                       else (k', v') # insert_prop k v ps))"

text \<open>Writing a property keeps the position of an existing key and creates a new one.\<close>

definition set_prop :: "jsstring \<Rightarrow> jsval \<Rightarrow> props \<Rightarrow> props" where
  "set_prop k v ps =
     (if k \<in> set (map fst ps)
      then map (\<lambda>(k', v'). if k' = k then (k', v) else (k', v')) ps
      else insert_prop k v ps)"

text \<open>The spread \<^verbatim>\<open>{ ...target, ...source }\<close>: every property of the source is written in turn.\<close>

definition spread :: "props \<Rightarrow> props \<Rightarrow> props" where
  "spread target source = foldl (\<lambda>obj (k, v). set_prop k v obj) target source"

section \<open>The database and the request\<close>

text \<open>
  The ways a call can fail: the source does not answer (\<open>SourceUnavailable\<close>) or
  JavaScript raises a \<^verbatim>\<open>TypeError\<close>. \<open>InvalidRequest\<close> is the error that the
  specification names for a rejected page request; no handler raises it.
\<close>

datatype failure = InvalidRequest | SourceUnavailable | TypeError

record doc =
  doc_id :: jsstring
  doc_data :: props

text \<open>
  A query as the builder calls \<^verbatim>\<open>collection\<close>, \<^verbatim>\<open>where\<close>, \<^verbatim>\<open>orderBy\<close>, \<^verbatim>\<open>limit\<close> and
  \<^verbatim>\<open>offset\<close> accumulate it. The handlers only use the operator \<^verbatim>\<open>==\<close> in \<^verbatim>\<open>where\<close>.
\<close>

record fsquery =
  q_collection :: jsstring
  q_where :: "(jsstring \<times> jsval) list"
  q_orderBy :: "(jsstring \<times> jsstring) option"
  q_limit :: "int option"
  q_offset :: "int option"

definition collection :: "jsstring \<Rightarrow> fsquery" where
  "collection name =
     \<lparr>q_collection = name, q_where = [], q_orderBy = None, q_limit = None, q_offset = None\<rparr>"

definition where_eq :: "jsstring \<Rightarrow> jsval \<Rightarrow> fsquery \<Rightarrow> fsquery" where
  "where_eq field v q = q\<lparr>q_where := q_where q @ [(field, v)]\<rparr>"

definition orderBy :: "jsstring \<Rightarrow> jsstring \<Rightarrow> fsquery \<Rightarrow> fsquery" where
  "orderBy field dir q = q\<lparr>q_orderBy := Some (field, dir)\<rparr>"

definition limit :: "int \<Rightarrow> fsquery \<Rightarrow> fsquery" where
  "limit n q = q\<lparr>q_limit := Some n\<rparr>"

definition offset :: "int \<Rightarrow> fsquery \<Rightarrow> fsquery" where
  "offset n q = q\<lparr>q_offset := Some n\<rparr>"

text \<open>
  The database \<^verbatim>\<open>db\<close> is not part of the repository: a handler receives it as the
  function that answers \<^verbatim>\<open>query.get()\<close> with the documents of the snapshot, or fails.
\<close>

type_synonym source = "fsquery \<Rightarrow> failure + doc list"

text \<open>
  Modelled from the spec: the backing source, \<^verbatim>\<open>fetchSlice(filters, offset, limit)\<close>
  returning an ordered sequence of records in a stable, caller-defined order, with the
  equality filters applied by the source. The list holds the one collection in that
  order, so the name of the collection and the ordering key of a query are not
  interpreted. The specification leaves a negative limit or offset open; here the
  source fails on it, and no theorem below depends on that choice.
\<close>

definition matches :: "(jsstring \<times> jsval) list \<Rightarrow> doc \<Rightarrow> bool" where
  "matches filters d = list_all (\<lambda>(field, v). map_of (doc_data d) field = Some v) filters"

definition list_source :: "doc list \<Rightarrow> source" where
  "list_source docs q =
     (let matching = filter (matches (q_where q)) docs;
          skipped = (case q_offset q of None \<Rightarrow> Some matching
                     | Some n \<Rightarrow> if n < 0 then None else Some (drop (nat n) matching))
      in case skipped of
           None \<Rightarrow> Inl SourceUnavailable
         | Some rest \<Rightarrow>
             (case q_limit q of None \<Rightarrow> Inr rest
              | Some n \<Rightarrow> if n < 0 then Inl SourceUnavailable else Inr (take (nat n) rest)))"

text \<open>
  The query string of the request. \<^verbatim>\<open>page\<close> and \<^verbatim>\<open>limit\<close> are either absent or the
  decimal numeral of an integer, and the model holds the integer. JavaScript numbers
  are doubles: every integer of magnitude up to \<open>2 ^ 53 = 9007199254740992\<close> is a
  double, and a sum, difference or product of such integers is exact when it is again
  in this range. There \<^verbatim>\<open>parseInt\<close> and the conversion to a number that \<^verbatim>\<open>page - 1\<close>
  performs give the integer itself, and the arithmetic of the handlers is the
  arithmetic of the integers. Beyond this range JavaScript rounds, which the model
  does not: a theorem that states which offset is sent or which number is echoed
  assumes that \<^verbatim>\<open>page\<close>, \<^verbatim>\<open>limit\<close> and the offset are in the range.
\<close>

record query_params =
  qp_page :: "int option"
  qp_limit :: "int option"
  qp_category :: "jsstring option"
  qp_status :: "jsstring option"
  qp_search :: "jsstring option"

record request =
  req_method :: jsstring
  req_query :: query_params

record response =
  res_status :: nat
  res_body :: jsval

text \<open>
  The destructuring \<^verbatim>\<open>const { page = 1, limit = 50 } = req.query\<close>, which the three
  handlers share: a default applies to an absent parameter.
\<close>

definition default_to :: "'a \<Rightarrow> 'a option \<Rightarrow> 'a" where
  "default_to d v = (case v of None \<Rightarrow> d | Some x \<Rightarrow> x)"

definition query_page :: "request \<Rightarrow> int" where
  "query_page req = default_to 1 (qp_page (req_query req))"

definition query_limit :: "request \<Rightarrow> int" where
  "query_limit req = default_to 50 (qp_limit (req_query req))"

section \<open>Pattern 1: pagination\<close>

text \<open>The callback of \<^verbatim>\<open>snapshot.docs.map\<close>: \<^verbatim>\<open>{ id: doc.id, ...doc.data() }\<close>.\<close>

definition with_id :: "doc \<Rightarrow> jsval" where
  "with_id d = JObj (spread [(js ''id'', JStr (doc_id d))] (doc_data d))"

text \<open>
  \<^verbatim>\<open>handler_good_example_1\<close> itself: the query it builds from \<^verbatim>\<open>page\<close> and \<^verbatim>\<open>limit\<close>
  (\<^verbatim>\<open>handler_good_example_2\<close> builds the same), then the handler. It has no \<^verbatim>\<open>try\<close>: a
  failure of \<^verbatim>\<open>get()\<close> rejects the promise of the handler.
\<close>

definition page_query :: "request \<Rightarrow> fsquery" where
  "page_query req =
     (let page = query_page req;
          lmt = query_limit req;
          off = (page - 1) * lmt
      in offset off (limit lmt (collection (js ''items''))))"

definition handler_good_example_1 :: "source \<Rightarrow> request \<Rightarrow> failure + response" where
  "handler_good_example_1 db req =
     (let page = query_page req;
          lmt = query_limit req
      in case db (page_query req) of
           Inl e \<Rightarrow> Inl e
         | Inr docs \<Rightarrow>
             (let items = map with_id docs
              in Inr \<lparr>res_status = 200,
                      res_body = JObj [(js ''items'', JArr items),
                                       (js ''page'', JNum page),
                                       (js ''limit'', JNum lmt),
                                       (js ''hasMore'', JBool (int (length docs) = lmt))]\<rparr>))"

section \<open>Pattern 2: excluding large fields\<close>

text \<open>
  \<^verbatim>\<open>data.description?.substring(0, 200)\<close>: the optional chain stops at \<^verbatim>\<open>undefined\<close> and
  \<^verbatim>\<open>null\<close>; a string gives its first 200 code units; any other value has no method
  \<^verbatim>\<open>substring\<close>, and calling it raises a \<^verbatim>\<open>TypeError\<close>.
\<close>

fun short_description :: "jsval \<Rightarrow> failure + jsval" where
  "short_description JUndefined = Inr JUndefined"
| "short_description JNull = Inr JUndefined"
| "short_description (JStr s) = Inr (JStr (take 200 s))"
| "short_description v = Inl TypeError"

text \<open>The callback of \<^verbatim>\<open>snapshot.docs.map\<close> in \<^verbatim>\<open>handler_good_example_2\<close>.\<close>

definition project_2 :: "doc \<Rightarrow> failure + jsval" where
  "project_2 d =
     (let data = doc_data d
      in case short_description (get_prop data (js ''description'')) of
           Inl e \<Rightarrow> Inl e
         | Inr short \<Rightarrow>
             Inr (JObj [(js ''id'', JStr (doc_id d)),
                        (js ''name'', get_prop data (js ''name'')),
                        (js ''category'', get_prop data (js ''category'')),
                        (js ''imageUrl'', get_prop data (js ''imageUrl'')),
                        (js ''shortDescription'', short)]))"

text \<open>\<^verbatim>\<open>Array.prototype.map\<close> with a callback that may throw: the first exception ends it.\<close>

fun map_throwing :: "('a \<Rightarrow> failure + 'b) \<Rightarrow> 'a list \<Rightarrow> failure + 'b list" where
  "map_throwing f [] = Inr []"
| "map_throwing f (x # xs) =
     (case f x of
        Inl e \<Rightarrow> Inl e
      | Inr y \<Rightarrow> (case map_throwing f xs of Inl e \<Rightarrow> Inl e | Inr ys \<Rightarrow> Inr (y # ys)))"

definition handler_good_example_2 :: "source \<Rightarrow> request \<Rightarrow> failure + response" where
  "handler_good_example_2 db req =
     (let page = query_page req;
          lmt = query_limit req
      in case db (page_query req) of
           Inl e \<Rightarrow> Inl e
         | Inr docs \<Rightarrow>
             (case map_throwing project_2 docs of
                Inl e \<Rightarrow> Inl e
              | Inr items \<Rightarrow>
                  Inr \<lparr>res_status = 200,
                       res_body = JObj [(js ''items'', JArr items), (js ''page'', JNum page)]\<rparr>))"

section \<open>The complete example\<close>

datatype console_event = LogResponseSize real | WarnExceeds | ErrorFetching failure

text \<open>
  \<^verbatim>\<open>Math.ceil(total / limit)\<close> for a count that is not negative: division by zero gives \<^verbatim>\<open>NaN\<close> for
  \<open>0 / 0\<close> and \<^verbatim>\<open>Infinity\<close> otherwise.
\<close>

definition total_pages :: "int \<Rightarrow> int \<Rightarrow> jsval" where
  "total_pages n lmt =
     (if lmt = 0 then (if n = 0 then JNaN else JInfinity)
      else JNum \<lceil>real_of_int n / real_of_int lmt\<rceil>)"

text \<open>The callback of \<^verbatim>\<open>snapshot.docs.map\<close> in \<^verbatim>\<open>handler\<close>.\<close>

definition project_item :: "doc \<Rightarrow> jsval" where
  "project_item d =
     (let data = doc_data d
      in JObj [(js ''id'', JStr (doc_id d)),
               (js ''name'', get_prop data (js ''name'')),
               (js ''category'', get_prop data (js ''category'')),
               (js ''location'', get_prop data (js ''location'')),
               (js ''createdAt'', get_prop data (js ''createdAt'')),
               (js ''imageUrl'', get_prop data (js ''imageUrl''))])"

text \<open>
  \<^verbatim>\<open>handler\<close>, the default export for \<^verbatim>\<open>pages/api/items.js\<close>: the query with its
  filters, the query that counts, and the handler. Everything after the method check
  runs inside \<^verbatim>\<open>try\<close>; the \<^verbatim>\<open>catch\<close> logs the error and answers 500. In
  \<^verbatim>\<open>if (category)\<close> an absent parameter and the empty string are falsy.
\<close>

definition build_query :: "request \<Rightarrow> fsquery" where
  "build_query req =
     (let page = query_page req;
          lmt = query_limit req;
          category = qp_category (req_query req);
          status = default_to (js ''active'') (qp_status (req_query req));
          query = offset ((page - 1) * lmt) (limit lmt
                    (orderBy (js ''createdAt'') (js ''desc'')
                      (where_eq (js ''status'') (JStr status) (collection (js ''items'')))))
      in case category of
           None \<Rightarrow> query
         | Some c \<Rightarrow> if c = [] then query else where_eq (js ''category'') (JStr c) query)"

definition total_query :: "request \<Rightarrow> fsquery" where
  "total_query req =
     (let status = default_to (js ''active'') (qp_status (req_query req))
      in where_eq (js ''status'') (JStr status) (collection (js ''items'')))"

definition handler :: "source \<Rightarrow> request \<Rightarrow> console_event list \<times> response" where
  "handler db req =
     (if req_method req \<noteq> js ''GET''
      then ([], \<lparr>res_status = 405,
                 res_body = JObj [(js ''error'', JStr (js ''Method not allowed''))]\<rparr>)
      else
        (let page = query_page req;
             lmt = query_limit req;
             failed = (\<lambda>e. ([ErrorFetching e],
                        \<lparr>res_status = 500,
                         res_body = JObj [(js ''error'', JStr (js ''Internal server error''))]\<rparr>))
         in case db (build_query req) of
              Inl e \<Rightarrow> failed e
            | Inr docs \<Rightarrow>
                (let items = map project_item docs
                 in case db (total_query req) of
                      Inl e \<Rightarrow> failed e
                    | Inr total_docs \<Rightarrow>
                        (let total_count = int (length total_docs)
                         in ([], \<lparr>res_status = 200,
                                  res_body = JObj
                                    [(js ''items'', JArr items),
                                     (js ''pagination'', JObj
                                        [(js ''page'', JNum page),
                                         (js ''limit'', JNum lmt),
                                         (js ''total'', JNum total_count),
                                         (js ''totalPages'', total_pages total_count lmt),
                                         (js ''hasMore'', JBool (page * lmt < total_count))])]\<rparr>)))))"

section \<open>The size check\<close>

text \<open>
  \<^verbatim>\<open>JSON.stringify\<close> quotes a string code point by code point: the short escapes, then
  \<^verbatim>\<open>\uXXXX\<close> in lower-case hexadecimal for the other control characters and for a
  surrogate that has no partner; a surrogate pair passes unchanged.
\<close>

definition is_high_surrogate :: "16 word \<Rightarrow> bool" where
  "is_high_surrogate c = (0xD800 \<le> c \<and> c \<le> 0xDBFF)"

definition is_low_surrogate :: "16 word \<Rightarrow> bool" where
  "is_low_surrogate c = (0xDC00 \<le> c \<and> c \<le> 0xDFFF)"

definition hex_digit :: "16 word \<Rightarrow> 16 word" where
  "hex_digit d = (if d < 10 then 0x30 + d else 0x57 + d)"

definition unicode_escape :: "16 word \<Rightarrow> jsstring" where
  "unicode_escape c =
     [0x5C, 0x75, hex_digit (drop_bit 12 c), hex_digit (take_bit 4 (drop_bit 8 c)),
      hex_digit (take_bit 4 (drop_bit 4 c)), hex_digit (take_bit 4 c)]"

fun escape_json :: "jsstring \<Rightarrow> jsstring" where
  "escape_json [] = []"
| "escape_json (c # cs) =
     (if c = 0x08 then [0x5C, 0x62] @ escape_json cs
      else if c = 0x09 then [0x5C, 0x74] @ escape_json cs
      else if c = 0x0A then [0x5C, 0x6E] @ escape_json cs
      else if c = 0x0C then [0x5C, 0x66] @ escape_json cs
      else if c = 0x0D then [0x5C, 0x72] @ escape_json cs
      else if c = 0x22 then [0x5C, 0x22] @ escape_json cs
      else if c = 0x5C then [0x5C, 0x5C] @ escape_json cs
      else if c < 0x20 then unicode_escape c @ escape_json cs
      else if is_high_surrogate c then
        (case cs of
           [] \<Rightarrow> unicode_escape c
         | d # ds \<Rightarrow> if is_low_surrogate d then c # d # escape_json ds
                     else unicode_escape c @ escape_json cs)
      else if is_low_surrogate c then unicode_escape c @ escape_json cs
      else c # escape_json cs)"

definition quote_json :: "jsstring \<Rightarrow> jsstring" where
  "quote_json s = [0x22] @ escape_json s @ [0x22]"

text \<open>
  The decimal numeral of an integer, as \<^verbatim>\<open>Number.prototype.toString\<close> prints an integer
  of magnitude below \<open>10 ^ 21\<close>. From there on JavaScript prints the exponent form
  (\<^verbatim>\<open>1e+21\<close>), which the model does not; the numbers that the handlers put into a
  response within the range of exact integers are all below it.
\<close>

fun digits :: "nat \<Rightarrow> jsstring" where
  "digits n = (if n < 10 then [of_nat (48 + n)] else digits (n div 10) @ [of_nat (48 + n mod 10)])"

definition number_to_string :: "int \<Rightarrow> jsstring" where
  "number_to_string n = (if n < 0 then js ''-'' @ digits (nat (- n)) else digits (nat n))"

fun join_comma :: "jsstring list \<Rightarrow> jsstring" where
  "join_comma [] = []"
| "join_comma [s] = s"
| "join_comma (s # ss) = s @ js '','' @ join_comma ss"

text \<open>
  \<^verbatim>\<open>JSON.stringify(value)\<close>: \<^verbatim>\<open>undefined\<close> has no text (the result \<open>None\<close>); inside
  an array it is printed as \<^verbatim>\<open>null\<close>, and a property holding it is left out. A number
  that is not finite is printed as \<^verbatim>\<open>null\<close>.
\<close>

fun stringify :: "jsval \<Rightarrow> jsstring option"
  and stringify_elems :: "jsval list \<Rightarrow> jsstring list"
  and stringify_members :: "props \<Rightarrow> jsstring list"
where
  "stringify JUndefined = None"
| "stringify JNull = Some (js ''null'')"
| "stringify (JBool b) = Some (if b then js ''true'' else js ''false'')"
| "stringify (JNum n) = Some (number_to_string n)"
| "stringify JNaN = Some (js ''null'')"
| "stringify JInfinity = Some (js ''null'')"
| "stringify (JStr s) = Some (quote_json s)"
| "stringify (JArr xs) = Some (js ''['' @ join_comma (stringify_elems xs) @ js '']'')"
| "stringify (JObj ps) = Some (js ''{'' @ join_comma (stringify_members ps) @ js ''}'')"
| "stringify_elems [] = []"
| "stringify_elems (x # xs) =
     (case stringify x of None \<Rightarrow> js ''null'' | Some s \<Rightarrow> s) # stringify_elems xs"
| "stringify_members [] = []"
| "stringify_members ((k, v) # ps) =
     (case stringify v of
        None \<Rightarrow> stringify_members ps
      | Some s \<Rightarrow> (quote_json k @ js '':'' @ s) # stringify_members ps)"

text \<open>
  \<^verbatim>\<open>Buffer.byteLength(s, 'utf8')\<close>: one to three bytes for a code unit, four for a
  surrogate pair, and the three bytes of U+FFFD for a surrogate without partner.
\<close>

fun byteLength :: "jsstring \<Rightarrow> nat" where
  "byteLength [] = 0"
| "byteLength (c # cs) =
     (if c < 0x80 then 1 + byteLength cs
      else if c < 0x800 then 2 + byteLength cs
      else if is_high_surrogate c then
        (case cs of
           [] \<Rightarrow> 3
         | d # ds \<Rightarrow> if is_low_surrogate d then 4 + byteLength ds else 3 + byteLength cs)
      else 3 + byteLength cs)"

text \<open>
  \<^verbatim>\<open>checkResponseSize\<close>. \<^verbatim>\<open>Buffer.byteLength(undefined)\<close> raises a \<^verbatim>\<open>TypeError\<close>. The
  division by \<open>1024 * 1024\<close>, a power of two, is exact on doubles, and so is the
  constant 4.5: the model computes in the reals. The console holds the events in
  order; the text of the log line (\<^verbatim>\<open>toFixed(2)\<close>) is not modelled.
\<close>

definition checkResponseSize :: "jsval \<Rightarrow> failure + console_event list \<times> real" where
  "checkResponseSize data =
     (case stringify data of
        None \<Rightarrow> Inl TypeError
      | Some jsonString \<Rightarrow>
          (let sizeInBytes = byteLength jsonString;
               sizeInMB = real sizeInBytes / (1024 * 1024)
           in Inr ([LogResponseSize sizeInMB] @ (if sizeInMB > 4.5 then [WarnExceeds] else []),
                   sizeInMB)))"

section \<open>A client that reads every page\<close>

text \<open>The fields of a page as a client reads them from the body of the response.\<close>

definition page_items :: "response \<Rightarrow> jsval list option" where
  "page_items r =
     (case res_body r of
        JObj ps \<Rightarrow> (case get_prop ps (js ''items'') of JArr xs \<Rightarrow> Some xs | _ \<Rightarrow> None)
      | _ \<Rightarrow> None)"

definition page_hasMore :: "response \<Rightarrow> bool option" where
  "page_hasMore r =
     (case res_body r of
        JObj ps \<Rightarrow> (case get_prop ps (js ''hasMore'') of JBool b \<Rightarrow> Some b | _ \<Rightarrow> None)
      | _ \<Rightarrow> None)"

definition pagination_hasMore :: "response \<Rightarrow> bool option" where
  "pagination_hasMore r =
     (case res_body r of
        JObj ps \<Rightarrow>
          (case get_prop ps (js ''pagination'') of
             JObj qs \<Rightarrow> (case get_prop qs (js ''hasMore'') of JBool b \<Rightarrow> Some b | _ \<Rightarrow> None)
           | _ \<Rightarrow> None)
      | _ \<Rightarrow> None)"

definition page_request :: "int \<Rightarrow> int \<Rightarrow> request" where
  "page_request page pageSize =
     \<lparr>req_method = js ''GET'',
      req_query = \<lparr>qp_page = Some page, qp_limit = Some pageSize, qp_category = None,
                   qp_status = None, qp_search = None\<rparr>\<rparr>"

text \<open>
  The pagination coverage property of the specification speaks of a client that asks
  \<^verbatim>\<open>handler_good_example_1\<close> for the pages \<open>page\<close>, \<open>page + 1\<close>, ... until one answers
  \<^verbatim>\<open>hasMore = false\<close>, and concatenates their items. The loop has no bound of its own:
  it runs on fuel, and \<open>None\<close> is a failed call or the fuel running out.
\<close>

fun collect_pages :: "source \<Rightarrow> int \<Rightarrow> nat \<Rightarrow> int \<Rightarrow> jsval list option" where
  "collect_pages db pageSize 0 page = None"
| "collect_pages db pageSize (Suc fuel) page =
     (case handler_good_example_1 db (page_request page pageSize) of
        Inl e \<Rightarrow> None
      | Inr r \<Rightarrow>
          (case (page_items r, page_hasMore r) of
             (Some xs, Some hasMore) \<Rightarrow>
               if hasMore
               then (case collect_pages db pageSize fuel (page + 1) of
                       None \<Rightarrow> None
                     | Some rest \<Rightarrow> Some (xs @ rest))
               else Some xs
           | _ \<Rightarrow> None))"

text \<open>
  A text can follow another without any change to the bytes of either when it does not
  begin with the second half of a surrogate pair.
\<close>

definition clean_start :: "jsstring \<Rightarrow> bool" where
  "clean_start s = (case s of [] \<Rightarrow> True | c # _ \<Rightarrow> \<not> is_low_surrogate c)"

section \<open>Sample data\<close>

text \<open>
  Three documents of the collection \<^verbatim>\<open>items\<close>. The first is the record of the
  projection scenario of the specification: a name, a large inline image and the URL
  of the image, and no description.
\<close>

definition doc_x :: doc where
  "doc_x = \<lparr>doc_id = js ''1'',
            doc_data = [(js ''name'', JStr (js ''x'')),
                        (js ''image'', JStr (js ''<huge-base64>'')),
                        (js ''imageUrl'', JStr (js ''https://...''))]\<rparr>"

definition doc_y :: doc where
  "doc_y = \<lparr>doc_id = js ''2'',
            doc_data = [(js ''name'', JStr (js ''y'')),
                        (js ''status'', JStr (js ''active'')),
                        (js ''description'', JStr (js ''a red umbrella''))]\<rparr>"

definition doc_z :: doc where
  "doc_z = \<lparr>doc_id = js ''3'',
            doc_data = [(js ''name'', JStr (js ''z'')),
                        (js ''status'', JStr (js ''active''))]\<rparr>"

section \<open>Facts about the source and the shape of a page\<close>

lemma list_source_slice:
  "0 \<le> off \<Longrightarrow> 0 \<le> n \<Longrightarrow>
   list_source docs (offset off (limit n (collection name)))
     = Inr (take (nat n) (drop (nat off) docs))"
  by (simp add: list_source_def offset_def limit_def collection_def matches_def)

lemma page_items_body:
  "page_items \<lparr>res_status = st, res_body = JObj ((js ''items'', JArr xs) # ps)\<rparr> = Some xs"
  by (simp add: page_items_def get_prop_def)

lemma page_hasMore_body:
  "page_hasMore \<lparr>res_status = st,
                 res_body = JObj [(js ''items'', i), (js ''page'', p), (js ''limit'', l),
                                  (js ''hasMore'', JBool b)]\<rparr> = Some b"
  by (simp add: page_hasMore_def get_prop_def js_def)

lemma pagination_hasMore_body:
  "pagination_hasMore
     \<lparr>res_status = st,
      res_body = JObj [(js ''items'', i),
                       (js ''pagination'',
                        JObj [(js ''page'', p), (js ''limit'', l), (js ''total'', t),
                              (js ''totalPages'', tp), (js ''hasMore'', JBool b)])]\<rparr> = Some b"
  by (simp add: pagination_hasMore_def get_prop_def js_def)

lemma query_page_request [simp]:
  "query_page (page_request p n) = p" "query_limit (page_request p n) = n"
  by (simp_all add: query_page_def query_limit_def page_request_def default_to_def)

text \<open>What \<^verbatim>\<open>handler_good_example_1\<close> answers when the source answers its one query.\<close>

lemma page_query_slice:
  assumes "1 \<le> query_page req" and "0 \<le> query_limit req"
  shows "list_source docs (page_query req)
           = Inr (take (nat (query_limit req))
                   (drop (nat ((query_page req - 1) * query_limit req)) docs))"
proof -
  from assms have "0 \<le> (query_page req - 1) * query_limit req" by simp
  with assms(2) show ?thesis
    by (simp add: page_query_def Let_def list_source_slice)
qed

lemma good_1_answer:
  "db (page_query req) = Inr docs \<Longrightarrow>
   handler_good_example_1 db req =
     Inr \<lparr>res_status = 200,
          res_body = JObj [(js ''items'', JArr (map with_id docs)),
                           (js ''page'', JNum (query_page req)),
                           (js ''limit'', JNum (query_limit req)),
                           (js ''hasMore'', JBool (int (length docs) = query_limit req))]\<rparr>"
  by (simp add: handler_good_example_1_def Let_def)

lemma good_1_list_source:
  assumes "1 \<le> query_page req" and "0 \<le> query_limit req"
  shows "handler_good_example_1 (list_source docs) req =
     Inr \<lparr>res_status = 200,
          res_body = JObj [(js ''items'', JArr (map with_id
                              (take (nat (query_limit req))
                                (drop (nat ((query_page req - 1) * query_limit req)) docs)))),
                           (js ''page'', JNum (query_page req)),
                           (js ''limit'', JNum (query_limit req)),
                           (js ''hasMore'', JBool (int (length
                              (take (nat (query_limit req))
                                (drop (nat ((query_page req - 1) * query_limit req)) docs)))
                              = query_limit req))]\<rparr>"
  using assms by (intro good_1_answer page_query_slice)

section \<open>The cap on the page size\<close>

text \<open>
  Claim C1, as the specification states it: a page request whose \<open>pageSize\<close> exceeds the
  cap of 200 fails with \<open>InvalidRequest\<close>. \<^verbatim>\<open>handler_good_example_1\<close> has no cap: asked
  for page 1 with \<^verbatim>\<open>limit=500\<close> on an empty collection it answers 200 and echoes the
  limit.
\<close>

theorem pageSize_above_cap_counterexample:
  "handler_good_example_1 (list_source []) (page_request 1 500) =
     Inr \<lparr>res_status = 200,
          res_body = JObj [(js ''items'', JArr []), (js ''page'', JNum 1),
                           (js ''limit'', JNum 500), (js ''hasMore'', JBool False)]\<rparr>
   \<and> handler_good_example_1 (list_source []) (page_request 1 500) \<noteq> Inl InvalidRequest"
  by (simp add: good_1_list_source)

text \<open>
  Claim C1, amended: \<^verbatim>\<open>handler_good_example_1\<close> applies no cap. For every request for
  a page \<open>\<ge> 1\<close> whose \<open>pageSize\<close> exceeds 200, with \<open>page\<close>, \<open>pageSize\<close> and the offset
  \<open>(page - 1) * pageSize\<close> in the range of the exact integers (up to \<open>2 ^ 53\<close>), on a
  list-backed source, it answers 200 with the slice of up to \<open>pageSize\<close> records and
  echoes the requested limit.
\<close>

theorem pageSize_is_not_capped:
  assumes "200 < query_limit req" and "1 \<le> query_page req"
    and "query_limit req \<le> 9007199254740992" and "query_page req \<le> 9007199254740992"
    and "(query_page req - 1) * query_limit req \<le> 9007199254740992"
  shows "\<exists>hasMore.
           handler_good_example_1 (list_source docs) req =
             Inr \<lparr>res_status = 200,
                  res_body = JObj [(js ''items'', JArr (map with_id
                                      (take (nat (query_limit req))
                                        (drop (nat ((query_page req - 1) * query_limit req))
                                           docs)))),
                                   (js ''page'', JNum (query_page req)),
                                   (js ''limit'', JNum (query_limit req)),
                                   (js ''hasMore'', JBool hasMore)]\<rparr>"
  using assms by (simp add: good_1_list_source)

theorem pageSize_is_not_capped_witness:
  "200 < query_limit (page_request 1 500) \<and> 1 \<le> query_page (page_request 1 500) \<and>
   query_limit (page_request 1 500) \<le> 9007199254740992 \<and>
   query_page (page_request 1 500) \<le> 9007199254740992 \<and>
   (query_page (page_request 1 500) - 1) * query_limit (page_request 1 500)
     \<le> 9007199254740992 \<and>
   (\<exists>hasMore.
      handler_good_example_1 (list_source [doc_x, doc_y, doc_z]) (page_request 1 500) =
        Inr \<lparr>res_status = 200,
             res_body = JObj [(js ''items'', JArr (map with_id [doc_x, doc_y, doc_z])),
                              (js ''page'', JNum 1),
                              (js ''limit'', JNum 500),
                              (js ''hasMore'', JBool hasMore)]\<rparr>)"
  using pageSize_is_not_capped [of "page_request 1 500" "[doc_x, doc_y, doc_z]"] by simp

section \<open>The size of a page\<close>

text \<open>
  Claim C5: for every valid page request (\<open>page \<ge> 1\<close>, \<open>pageSize \<ge> 1\<close>) the handler
  returns a page, and the page has at most \<open>pageSize\<close> items.
\<close>

theorem items_at_most_pageSize:
  assumes "1 \<le> query_page req" and "1 \<le> query_limit req"
  shows "\<exists>r xs. handler_good_example_1 (list_source docs) req = Inr r
           \<and> page_items r = Some xs \<and> int (length xs) \<le> query_limit req"
  using assms by (simp add: good_1_list_source page_items_body)

theorem items_at_most_pageSize_witness:
  "1 \<le> query_page (page_request 1 2) \<and> 1 \<le> query_limit (page_request 1 2) \<and>
   (\<exists>r xs. handler_good_example_1 (list_source [doc_x, doc_y, doc_z]) (page_request 1 2) = Inr r
      \<and> page_items r = Some xs \<and> int (length xs) \<le> 2)"
  using items_at_most_pageSize [of "page_request 1 2" "[doc_x, doc_y, doc_z]"] by simp

section \<open>Facts about the complete example\<close>

lemma build_query_fields:
  "q_offset (build_query req) = Some ((query_page req - 1) * query_limit req)"
  "q_limit (build_query req) = Some (query_limit req)"
  by (simp_all add: build_query_def Let_def offset_def limit_def orderBy_def where_eq_def
        collection_def split: option.split)

lemma build_query_slice:
  assumes "1 \<le> query_page req" and "0 \<le> query_limit req"
  shows "list_source docs (build_query req)
           = Inr (take (nat (query_limit req))
                   (drop (nat ((query_page req - 1) * query_limit req))
                      (filter (matches (q_where (build_query req))) docs)))"
proof -
  from assms have "0 \<le> (query_page req - 1) * query_limit req" by simp
  with assms(2) show ?thesis
    by (simp add: list_source_def build_query_fields)
qed

lemma total_query_all:
  "list_source docs (total_query req) = Inr (filter (matches (q_where (total_query req))) docs)"
  by (simp add: list_source_def total_query_def Let_def where_eq_def collection_def)

lemma handler_answer:
  assumes "req_method req = js ''GET''"
    and "db (build_query req) = Inr docs" and "db (total_query req) = Inr total_docs"
  shows "handler db req =
     ([], \<lparr>res_status = 200,
           res_body = JObj
             [(js ''items'', JArr (map project_item docs)),
              (js ''pagination'', JObj
                 [(js ''page'', JNum (query_page req)),
                  (js ''limit'', JNum (query_limit req)),
                  (js ''total'', JNum (int (length total_docs))),
                  (js ''totalPages'', total_pages (int (length total_docs)) (query_limit req)),
                  (js ''hasMore'', JBool (query_page req * query_limit req < int (length total_docs)))])]\<rparr>)"
  using assms by (simp add: handler_def Let_def)

lemma sample_matches:
  "\<not> matches (q_where (build_query (page_request p n))) doc_x"
  "matches (q_where (build_query (page_request p n))) doc_y"
  "matches (q_where (build_query (page_request p n))) doc_z"
  "\<not> matches (q_where (total_query (page_request p n))) doc_x"
  "matches (q_where (total_query (page_request p n))) doc_y"
  "matches (q_where (total_query (page_request p n))) doc_z"
  by (simp_all add: build_query_def total_query_def page_request_def Let_def offset_def
        limit_def orderBy_def where_eq_def collection_def matches_def doc_x_def doc_y_def
        doc_z_def default_to_def js_def)

lemma page_request_GET [simp]: "req_method (page_request p n) = js ''GET''"
  by (simp add: page_request_def)

section \<open>The offset of a page\<close>




section \<open>The flag hasMore\<close>

text \<open>
  Claim C2, as the specification states it: in offset mode \<^verbatim>\<open>hasMore\<close> is true exactly
  when the number of fetched records equals \<open>pageSize\<close>. The complete \<^verbatim>\<open>handler\<close> does
  not compute it so: with two matching records, page 1 of size 2 fetches two records,
  as many as \<open>pageSize\<close>, and reports \<^verbatim>\<open>hasMore = false\<close>.
\<close>

theorem hasMore_exact_on_total_counterexample:
  "page_items (snd (handler (list_source [doc_x, doc_y, doc_z]) (page_request 1 2)))
     = Some [project_item doc_y, project_item doc_z]
   \<and> pagination_hasMore (snd (handler (list_source [doc_x, doc_y, doc_z]) (page_request 1 2)))
     = Some False"
  by (simp add: handler_answer [OF _ build_query_slice total_query_all] sample_matches
        page_items_body pagination_hasMore_body)

text \<open>
  Claim C2, amended: \<^verbatim>\<open>handler_good_example_1\<close> computes \<^verbatim>\<open>hasMore\<close> as
  (fetched count = \<open>pageSize\<close>), so that it is true also on a last page that is exactly
  full; the complete \<^verbatim>\<open>handler\<close> computes it as \<open>page * pageSize < total\<close>, where
  \<open>total\<close> is the number of records of the requested status.
\<close>

theorem hasMore_of_each_handler:
  "(db (page_query req) = Inr docs \<longrightarrow>
      (\<exists>r. handler_good_example_1 db req = Inr r
         \<and> page_hasMore r = Some (int (length docs) = query_limit req)))
   \<and> (1 \<le> query_page req \<and> 1 \<le> query_limit req
        \<and> int (length all_docs) = query_page req * query_limit req \<longrightarrow>
      (\<exists>r xs. handler_good_example_1 (list_source all_docs) req = Inr r
         \<and> page_items r = Some xs \<and> int (length xs) = query_limit req
         \<and> page_hasMore r = Some True))
   \<and> (req_method req = js ''GET'' \<and> db (build_query req) = Inr docs
        \<and> db (total_query req) = Inr total_docs \<longrightarrow>
      pagination_hasMore (snd (handler db req))
        = Some (query_page req * query_limit req < int (length total_docs)))"
proof (intro conjI impI)
  assume "db (page_query req) = Inr docs"
  then show "\<exists>r. handler_good_example_1 db req = Inr r
         \<and> page_hasMore r = Some (int (length docs) = query_limit req)"
    by (simp add: good_1_answer page_hasMore_body)
next
  assume a: "1 \<le> query_page req \<and> 1 \<le> query_limit req
        \<and> int (length all_docs) = query_page req * query_limit req"
  define p where "p = nat (query_page req - 1)"
  define n where "n = nat (query_limit req)"
  from a have pn: "query_page req = int p + 1" "query_limit req = int n" "1 \<le> n"
    by (auto simp: p_def n_def)
  from a have "int (length all_docs) = int ((p + 1) * n)"
    by (simp add: pn algebra_simps)
  then have len: "length all_docs = (p + 1) * n"
    by (simp only: of_nat_eq_iff)
  have off: "nat ((query_page req - 1) * query_limit req) = p * n"
    by (simp add: pn nat_mult_distrib flip: of_nat_mult)
  have slice: "take (nat (query_limit req))
                 (drop (nat ((query_page req - 1) * query_limit req)) all_docs)
               = take n (drop (p * n) all_docs)"
    by (simp only: off n_def)
  have full: "length (take n (drop (p * n) all_docs)) = n"
    by (simp add: len)
  have eq: "(int (length (take n (drop (p * n) all_docs))) = query_limit req) = True"
    unfolding full pn(2) by simp
  let ?xs = "map with_id (take n (drop (p * n) all_docs))"
  let ?r = "\<lparr>res_status = 200,
             res_body = JObj [(js ''items'', JArr ?xs),
                              (js ''page'', JNum (query_page req)),
                              (js ''limit'', JNum (query_limit req)),
                              (js ''hasMore'', JBool True)]\<rparr>"
  from a have r: "handler_good_example_1 (list_source all_docs) req = Inr ?r"
    using good_1_list_source [of req all_docs, unfolded slice eq] by simp
  have items: "page_items ?r = Some ?xs"
    by (rule page_items_body)
  have more: "page_hasMore ?r = Some True"
    by (rule page_hasMore_body)
  have "int (length ?xs) = query_limit req"
    by (simp only: length_map full pn(2))
  with r items more
  show "\<exists>r xs. handler_good_example_1 (list_source all_docs) req = Inr r
         \<and> page_items r = Some xs \<and> int (length xs) = query_limit req
         \<and> page_hasMore r = Some True"
    by blast
next
  assume "req_method req = js ''GET'' \<and> db (build_query req) = Inr docs
        \<and> db (total_query req) = Inr total_docs"
  then show "pagination_hasMore (snd (handler db req))
        = Some (query_page req * query_limit req < int (length total_docs))"
    by (simp add: handler_answer pagination_hasMore_body)
qed

theorem hasMore_of_each_handler_witness:
  "list_source [doc_x, doc_y, doc_z] (page_query (page_request 1 3)) = Inr [doc_x, doc_y, doc_z]
   \<and> (\<exists>r. handler_good_example_1 (list_source [doc_x, doc_y, doc_z]) (page_request 1 3) = Inr r
         \<and> page_hasMore r = Some True)
   \<and> req_method (page_request 1 2) = js ''GET''
   \<and> list_source [doc_x, doc_y, doc_z] (build_query (page_request 1 2)) = Inr [doc_y, doc_z]
   \<and> list_source [doc_x, doc_y, doc_z] (total_query (page_request 1 2)) = Inr [doc_y, doc_z]
   \<and> pagination_hasMore (snd (handler (list_source [doc_x, doc_y, doc_z]) (page_request 1 2)))
        = Some False"
  using hasMore_of_each_handler [of "list_source [doc_x, doc_y, doc_z]" "page_request 1 3"
          "[doc_x, doc_y, doc_z]" "[doc_x, doc_y, doc_z]"]
        hasMore_of_each_handler [of "list_source [doc_x, doc_y, doc_z]" "page_request 1 2"
          "[doc_y, doc_z]" "[]" "[doc_y, doc_z]"]
  by (simp add: page_query_slice build_query_slice total_query_all sample_matches)


section \<open>Reading every page\<close>

lemma good_1_page_of_list:
  "handler_good_example_1 (list_source docs) (page_request (int k + 1) (int n)) =
     Inr \<lparr>res_status = 200,
          res_body = JObj [(js ''items'', JArr (map with_id (take n (drop (k * n) docs)))),
                           (js ''page'', JNum (int k + 1)),
                           (js ''limit'', JNum (int n)),
                           (js ''hasMore'', JBool (length (take n (drop (k * n) docs)) = n))]\<rparr>"
proof -
  have "nat ((int k + 1 - 1) * int n) = k * n"
    by (simp add: nat_mult_distrib flip: of_nat_mult)
  then show ?thesis
    using good_1_list_source [of "page_request (int k + 1) (int n)" docs]
    by (simp del: length_take)
qed

lemma collect_pages_step:
  "collect_pages (list_source docs) (int n) (Suc fuel) (int k + 1) =
     (if length (take n (drop (k * n) docs)) = n
      then (case collect_pages (list_source docs) (int n) fuel (int (Suc k) + 1) of
              None \<Rightarrow> None
            | Some rest \<Rightarrow> Some (map with_id (take n (drop (k * n) docs)) @ rest))
      else Some (map with_id (take n (drop (k * n) docs))))"
proof -
  have "int k + 1 + 1 = int (Suc k) + 1" by simp
  then show ?thesis
    by (simp only: collect_pages.simps good_1_page_of_list page_items_body page_hasMore_body
          sum.case prod.case option.case)
qed

lemma collect_pages_from:
  assumes "1 \<le> n"
  shows "length docs - k * n < fuel * n \<Longrightarrow>
         collect_pages (list_source docs) (int n) fuel (int k + 1)
           = Some (map with_id (drop (k * n) docs))"
proof (induction fuel arbitrary: k)
  case 0
  then show ?case by simp
next
  case (Suc fuel)
  show ?case
  proof (cases "length (take n (drop (k * n) docs)) = n")
    case True
    then have "n \<le> length docs - k * n" by simp
    with Suc.prems have "length docs - (Suc k) * n < fuel * n" by simp
    then have rest: "collect_pages (list_source docs) (int n) fuel (int (Suc k) + 1)
           = Some (map with_id (drop (Suc k * n) docs))"
      by (rule Suc.IH)
    have "take n (drop (k * n) docs) @ drop (Suc k * n) docs = drop (k * n) docs"
      by (simp add: add.commute flip: drop_drop)
    then have "map with_id (take n (drop (k * n) docs)) @ map with_id (drop (Suc k * n) docs)
               = map with_id (drop (k * n) docs)"
      by (simp only: flip: map_append)
    with True rest show ?thesis
      by (simp only: collect_pages_step option.case) simp
  next
    case False
    then have "length docs - k * n < n" by auto
    then have "take n (drop (k * n) docs) = drop (k * n) docs" by simp
    with False show ?thesis
      by (simp only: collect_pages_step) simp
  qed
qed

text \<open>
  Claim C6: with an unchanged list-backed source (its order is the stable order) and a
  page size \<open>\<ge> 1\<close>, the client that reads the pages from \<open>page = 1\<close> until
  \<^verbatim>\<open>hasMore = false\<close> comes to an end, given fuel for \<open>length docs div pageSize + 1\<close> calls,
  and the concatenated items are the items of the records of the collection, each once
  and in order: none is missing, none is repeated, and there are as many as records.
  (The handler has no filters: every record matches.)
\<close>

theorem pages_cover_collection:
  assumes "1 \<le> pageSize" and "length docs div nat pageSize < fuel"
  shows "\<exists>xs. collect_pages (list_source docs) pageSize fuel 1 = Some xs
           \<and> xs = map with_id docs \<and> length xs = length docs"
proof -
  define n where "n = nat pageSize"
  with assms have n: "1 \<le> n" "pageSize = int n" by simp_all
  from assms(2) have "Suc (length docs div n) \<le> fuel" by (simp add: n_def)
  then have "Suc (length docs div n) * n \<le> fuel * n" by (rule mult_le_mono1)
  moreover have "length docs < Suc (length docs div n) * n"
    using n(1) dividend_less_div_times [of n "length docs"] by (simp add: mult.commute)
  ultimately have "length docs - 0 * n < fuel * n" by simp
  from collect_pages_from [OF n(1) this] show ?thesis
    by (simp add: n(2))
qed

theorem pages_cover_collection_witness:
  "1 \<le> (2::int) \<and> length [doc_x, doc_y, doc_z] div nat 2 < 2 \<and>
   (\<exists>xs. collect_pages (list_source [doc_x, doc_y, doc_z]) 2 2 1 = Some xs
      \<and> xs = [with_id doc_x, with_id doc_y, with_id doc_z] \<and> length xs = 3)"
  using pages_cover_collection [of 2 "[doc_x, doc_y, doc_z]" 2] by simp

text \<open>
  The scenario of the specification: 120 records and \<open>pageSize = 50\<close>. Page 1 has 50
  items and \<^verbatim>\<open>hasMore = true\<close>, page 3 has 20 items and \<^verbatim>\<open>hasMore = false\<close>.
\<close>

lemma scenario_120_records:
  assumes "length docs = 120"
  shows "\<exists>r1 xs1 r3 xs3.
           handler_good_example_1 (list_source docs) (page_request 1 50) = Inr r1
         \<and> page_items r1 = Some xs1 \<and> length xs1 = 50 \<and> page_hasMore r1 = Some True
         \<and> handler_good_example_1 (list_source docs) (page_request 3 50) = Inr r3
         \<and> page_items r3 = Some xs3 \<and> length xs3 = 20 \<and> page_hasMore r3 = Some False"
  using assms by (simp add: good_1_list_source page_items_body page_hasMore_body)


section \<open>The projection\<close>

lemma map_throwing_Inr:
  "map_throwing f xs = Inr ys \<Longrightarrow> \<forall>y \<in> set ys. \<exists>x \<in> set xs. f x = Inr y"
  by (induction xs arbitrary: ys) (auto split: sum.splits)

lemma map_throwing_total:
  "\<forall>x \<in> set xs. \<exists>y. f x = Inr y \<Longrightarrow> \<exists>ys. map_throwing f xs = Inr ys"
  by (induction xs) (auto split: sum.splits)

lemma project_2_fields:
  "project_2 d = Inr v \<Longrightarrow>
   \<exists>ps. v = JObj ps \<and> map fst ps = [js ''id'', js ''name'', js ''category'', js ''imageUrl'',
                                      js ''shortDescription'']"
  by (auto simp: project_2_def Let_def split: sum.splits)

lemma project_2_doc_x:
  "project_2 doc_x =
     Inr (JObj [(js ''id'', JStr (js ''1'')), (js ''name'', JStr (js ''x'')),
                (js ''category'', JUndefined), (js ''imageUrl'', JStr (js ''https://...'')),
                (js ''shortDescription'', JUndefined)])"
  by (simp add: project_2_def doc_x_def get_prop_def js_def)

lemma stringify_doc_x:
  \<open>stringify (JObj [(js ''id'', JStr (js ''1'')), (js ''name'', JStr (js ''x'')),
                (js ''category'', JUndefined), (js ''imageUrl'', JStr (js ''https://...'')),
                (js ''shortDescription'', JUndefined)])
   = Some (js ''{"id":"1","name":"x","imageUrl":"https://..."}'')\<close>
  by (simp add: js_def quote_json_def is_high_surrogate_def is_low_surrogate_def)

lemma good_2_list_source_x:
  "handler_good_example_2 (list_source [doc_x, doc_y, doc_z]) (page_request 1 1)
     = Inr \<lparr>res_status = 200,
            res_body = JObj [(js ''items'', JArr [JObj [(js ''id'', JStr (js ''1'')), (js ''name'', JStr (js ''x'')),
                (js ''category'', JUndefined), (js ''imageUrl'', JStr (js ''https://...'')),
                (js ''shortDescription'', JUndefined)]]), (js ''page'', JNum 1)]\<rparr>"
  by (simp add: handler_good_example_2_def page_query_slice project_2_doc_x)


lemma project_2_no_description:
  "map_of (doc_data d) (js ''description'') = None \<Longrightarrow>
   project_2 d = Inr (JObj [(js ''id'', JStr (doc_id d)),
                        (js ''name'', get_prop (doc_data d) (js ''name'')),
                        (js ''category'', get_prop (doc_data d) (js ''category'')),
                        (js ''imageUrl'', get_prop (doc_data d) (js ''imageUrl'')),
                        (js ''shortDescription'', JUndefined)])"
  by (simp add: project_2_def Let_def get_prop_def)

lemma shortDescription_of_item:
  "get_prop [(js ''id'', a), (js ''name'', b), (js ''category'', c), (js ''imageUrl'', d),
             (js ''shortDescription'', e)] (js ''shortDescription'') = e"
  by (simp add: get_prop_def js_def)

text \<open>
  Claim C4, as the specification states it: a projection specification chooses the
  fields, and projecting \<open>{name, imageUrl}\<close> onto the record \<open>{name, image, imageUrl}\<close>
  yields exactly \<open>{name, imageUrl}\<close>. \<^verbatim>\<open>handler_good_example_2\<close> takes no projection
  specification: its list of fields is fixed, and on this record it yields the
  document id, the name, the URL, and \<^verbatim>\<open>undefined\<close> for the category and the short
  description.
\<close>

theorem projection_scenario_counterexample:
  "project_2 doc_x =
     Inr (JObj [(js ''id'', JStr (js ''1'')), (js ''name'', JStr (js ''x'')),
                (js ''category'', JUndefined), (js ''imageUrl'', JStr (js ''https://...'')),
                (js ''shortDescription'', JUndefined)])
   \<and> project_2 doc_x \<noteq>
     Inr (JObj [(js ''name'', JStr (js ''x'')), (js ''imageUrl'', JStr (js ''https://...''))])"
  by (simp add: project_2_doc_x)

text \<open>
  Claim C4, amended: every item of a page of \<^verbatim>\<open>handler_good_example_2\<close> has exactly the
  properties \<^verbatim>\<open>id\<close>, \<^verbatim>\<open>name\<close>, \<^verbatim>\<open>category\<close>, \<^verbatim>\<open>imageUrl\<close> and \<^verbatim>\<open>shortDescription\<close>,
  whatever fields the record has: a field that is not in this list is dropped, never
  included by default. On the record \<open>{name, image, imageUrl}\<close> the item is, as JSON,
  the id, the name and the URL, without \<^verbatim>\<open>image\<close>.
\<close>

theorem items_have_the_fixed_fields:
  \<open>(handler_good_example_2 db req = Inr r \<and> page_items r = Some xs \<longrightarrow>
      (\<forall>x \<in> set xs. \<exists>ps. x = JObj ps \<and>
         map fst ps = [js ''id'', js ''name'', js ''category'', js ''imageUrl'',
                       js ''shortDescription'']))
   \<and> (\<exists>v. project_2 doc_x = Inr v \<and>
         stringify v = Some (js ''{"id":"1","name":"x","imageUrl":"https://..."}''))\<close>
proof (intro conjI impI)
  assume a: "handler_good_example_2 db req = Inr r \<and> page_items r = Some xs"
  then obtain docs where "map_throwing project_2 docs = Inr xs"
    by (auto simp: handler_good_example_2_def Let_def page_items_body split: sum.splits)
  then have "\<forall>x \<in> set xs. \<exists>d \<in> set docs. project_2 d = Inr x"
    by (rule map_throwing_Inr)
  then show "\<forall>x \<in> set xs. \<exists>ps. x = JObj ps \<and>
         map fst ps = [js ''id'', js ''name'', js ''category'', js ''imageUrl'',
                       js ''shortDescription'']"
    by (blast dest: project_2_fields)
next
  show \<open>\<exists>v. project_2 doc_x = Inr v \<and>
         stringify v = Some (js ''{"id":"1","name":"x","imageUrl":"https://..."}'')\<close>
    using project_2_doc_x stringify_doc_x by blast
qed

theorem items_have_the_fixed_fields_witness:
  "handler_good_example_2 (list_source [doc_x, doc_y, doc_z]) (page_request 1 1)
     = Inr \<lparr>res_status = 200,
            res_body = JObj [(js ''items'', JArr [JObj [(js ''id'', JStr (js ''1'')),
                (js ''name'', JStr (js ''x'')), (js ''category'', JUndefined),
                (js ''imageUrl'', JStr (js ''https://...'')),
                (js ''shortDescription'', JUndefined)]]), (js ''page'', JNum 1)]\<rparr>
   \<and> (\<exists>ps. JObj [(js ''id'', JStr (js ''1'')),
                (js ''name'', JStr (js ''x'')), (js ''category'', JUndefined),
                (js ''imageUrl'', JStr (js ''https://...'')),
                (js ''shortDescription'', JUndefined)] = JObj ps \<and>
         map fst ps = [js ''id'', js ''name'', js ''category'', js ''imageUrl'',
                       js ''shortDescription''])"
  using items_have_the_fixed_fields [of "list_source [doc_x, doc_y, doc_z]" "page_request 1 1"
      "\<lparr>res_status = 200,
            res_body = JObj [(js ''items'', JArr [JObj [(js ''id'', JStr (js ''1'')),
                (js ''name'', JStr (js ''x'')), (js ''category'', JUndefined),
                (js ''imageUrl'', JStr (js ''https://...'')),
                (js ''shortDescription'', JUndefined)]]), (js ''page'', JNum 1)]\<rparr>"
      "[JObj [(js ''id'', JStr (js ''1'')),
                (js ''name'', JStr (js ''x'')), (js ''category'', JUndefined),
                (js ''imageUrl'', JStr (js ''https://...'')),
                (js ''shortDescription'', JUndefined)]]"]
  by (simp add: good_2_list_source_x page_items_body)

section \<open>A record without description\<close>

text \<open>
  Claim C10: for a record that lacks the field \<^verbatim>\<open>description\<close> the projection raises
  no error and the property \<^verbatim>\<open>shortDescription\<close> of the item is \<^verbatim>\<open>undefined\<close>; a page
  of such records is answered by \<^verbatim>\<open>handler_good_example_2\<close> whenever the source answers.
\<close>

theorem missing_description_is_undefined:
  "(map_of (doc_data d) (js ''description'') = None \<longrightarrow>
      (\<exists>ps. project_2 d = Inr (JObj ps)
         \<and> get_prop ps (js ''shortDescription'') = JUndefined))
   \<and> (db (page_query req) = Inr docs
        \<and> (\<forall>d \<in> set docs. map_of (doc_data d) (js ''description'') = None) \<longrightarrow>
      (\<exists>r. handler_good_example_2 db req = Inr r))"
proof (intro conjI impI)
  assume "map_of (doc_data d) (js ''description'') = None"
  then show "\<exists>ps. project_2 d = Inr (JObj ps)
         \<and> get_prop ps (js ''shortDescription'') = JUndefined"
    by (simp add: project_2_no_description shortDescription_of_item)
next
  assume a: "db (page_query req) = Inr docs
        \<and> (\<forall>d \<in> set docs. map_of (doc_data d) (js ''description'') = None)"
  then have "\<forall>d \<in> set docs. \<exists>y. project_2 d = Inr y"
    by (simp add: project_2_no_description)
  then obtain items where "map_throwing project_2 docs = Inr items"
    using map_throwing_total by blast
  with a show "\<exists>r. handler_good_example_2 db req = Inr r"
    by (simp add: handler_good_example_2_def Let_def)
qed

theorem missing_description_is_undefined_witness:
  "map_of (doc_data doc_x) (js ''description'') = None
   \<and> (\<exists>ps. project_2 doc_x = Inr (JObj ps)
         \<and> get_prop ps (js ''shortDescription'') = JUndefined)
   \<and> list_source [doc_x, doc_y, doc_z] (page_query (page_request 1 1)) = Inr [doc_x]
   \<and> (\<exists>r. handler_good_example_2 (list_source [doc_x, doc_y, doc_z]) (page_request 1 1) = Inr r)"
proof -
  have none: "map_of (doc_data doc_x) (js ''description'') = None"
    by (simp add: doc_x_def js_def)
  have slice: "list_source [doc_x, doc_y, doc_z] (page_query (page_request 1 1)) = Inr [doc_x]"
    by (simp add: page_query_slice)
  show ?thesis
    using missing_description_is_undefined
            [of doc_x "list_source [doc_x, doc_y, doc_z]" "page_request 1 1" "[doc_x]"]
          none slice
    by simp
qed


section \<open>Facts about the JSON text and its bytes\<close>

lemma byteLength_append:
  "clean_start b \<Longrightarrow> byteLength (a @ b) = byteLength a + byteLength b"
proof (induction a rule: byteLength.induct)
  case 1
  then show ?case by simp
next
  case (2 c cs)
  then show ?case
    by (cases cs; cases b) (simp_all add: clean_start_def)
qed

lemma ascii_facts [simp]:
  "clean_start (js '','' @ s)" "clean_start (js '']'' @ s)" "clean_start (js ''}'' @ s)"
  "clean_start (js ''['' @ s)" "clean_start (js ''{'' @ s)"
  "clean_start (js '','')" "clean_start (js '']'')" "clean_start (js ''}'')"
  "byteLength (js '','') = 1" "byteLength (js '']'') = 1" "byteLength (js ''}'') = 1"
  "byteLength (js ''['') = 1" "byteLength (js ''{'') = 1"
  by (simp_all add: clean_start_def js_def is_low_surrogate_def)

lemma clean_start_Nil [simp]: "clean_start []"
  by (simp add: clean_start_def)

lemma join_comma_snoc:
  "join_comma (ss @ [s]) = (if ss = [] then s else join_comma ss @ js '','' @ s)"
  by (induction ss rule: join_comma.induct) simp_all

lemma join_comma_Cons:
  "ns \<noteq> [] \<Longrightarrow> join_comma (m # ns) = m @ js '','' @ join_comma ns"
  by (cases ns) simp_all

lemma join_comma_middle:
  "join_comma (ms @ m # ns) =
     (if ms = [] then [] else join_comma ms @ js '','') @ m
       @ (if ns = [] then [] else js '','' @ join_comma ns)"
proof (induction ms)
  case Nil
  then show ?case by (simp add: join_comma_Cons)
next
  case (Cons a ms)
  then show ?case by (cases ms) (simp_all add: join_comma_Cons)
qed

lemma byteLength_bracket [simp]:
  "byteLength (js ''['' @ s) = 1 + byteLength s"
  "byteLength (js ''{'' @ s) = 1 + byteLength s"
  "byteLength (js '','' @ s) = 1 + byteLength s"
  by (simp_all add: js_def)

lemma stringify_elems_append:
  "stringify_elems (xs @ ys) = stringify_elems xs @ stringify_elems ys"
  by (induction xs) simp_all

lemma stringify_members_append:
  "stringify_members (ps @ qs) = stringify_members ps @ stringify_members qs"
  by (induction ps) (auto split: option.splits)

text \<open>The text of an array, and the same array with one more element.\<close>

lemma array_text_grows:
  "byteLength (js ''['' @ join_comma ss @ js '']'')
     \<le> byteLength (js ''['' @ join_comma (ss @ [s]) @ js '']'')"
proof (cases "ss = []")
  case True
  then show ?thesis
    by (simp add: byteLength_append)
next
  case False
  then have "join_comma (ss @ [s]) @ js '']'' = join_comma ss @ (js '','' @ s @ js '']'')"
    by (simp add: join_comma_snoc)
  then have "byteLength (join_comma (ss @ [s]) @ js '']'')
          = byteLength (join_comma ss) + (1 + byteLength (s @ js '']''))"
    by (simp only: byteLength_append ascii_facts byteLength_bracket)
  moreover have "byteLength (join_comma ss @ js '']'') = byteLength (join_comma ss) + 1"
    by (simp add: byteLength_append)
  ultimately show ?thesis
    by (simp only: byteLength_bracket)
qed

text \<open>The text of an object around the text of one of its properties.\<close>

lemma object_text_around:
  "stringify v = Some t \<Longrightarrow>
   stringify (JObj (pre @ (k, v) # post)) =
     Some ((js ''{'' @ (if stringify_members pre = [] then []
                       else join_comma (stringify_members pre) @ js '','')
              @ quote_json k @ js '':'') @ t
           @ ((if stringify_members post = [] then []
               else js '','' @ join_comma (stringify_members post)) @ js ''}''))"
  by (simp add: stringify_members_append join_comma_middle)

lemma clean_start_tail [simp]:
  "clean_start ((if ms = [] then [] else js '','' @ join_comma ms) @ js ''}'')"
  by simp

lemma object_text_grows:
  assumes "stringify v = Some t" and "stringify v' = Some t'"
    and "t \<noteq> []" and "t' \<noteq> []" and "clean_start t" and "clean_start t'"
    and "byteLength t \<le> byteLength t'"
  shows "\<exists>s s'. stringify (JObj (pre @ (k, v) # post)) = Some s
           \<and> stringify (JObj (pre @ (k, v') # post)) = Some s'
           \<and> byteLength s \<le> byteLength s'"
proof -
  let ?x = "js ''{'' @ (if stringify_members pre = [] then []
                       else join_comma (stringify_members pre) @ js '','')
              @ quote_json k @ js '':''"
  let ?y = "(if stringify_members post = [] then []
               else js '','' @ join_comma (stringify_members post)) @ js ''}''"
  have y: "clean_start ?y" by (rule clean_start_tail)
  have "clean_start (t @ ?y)" "clean_start (t' @ ?y)"
    using assms(3-6) by (cases t; cases t'; simp add: clean_start_def)+
  then have "byteLength (?x @ t @ ?y) = byteLength ?x + (byteLength t + byteLength ?y)"
    and "byteLength (?x @ t' @ ?y) = byteLength ?x + (byteLength t' + byteLength ?y)"
    using y by (simp_all only: byteLength_append)
  with assms(7) have "byteLength (?x @ t @ ?y) \<le> byteLength (?x @ t' @ ?y)"
    by simp
  then show ?thesis
    by (simp only: object_text_around [OF assms(1)] object_text_around [OF assms(2)]) blast
qed

lemma checkResponseSize_bytes:
  "stringify data = Some s \<Longrightarrow>
   checkResponseSize data =
     Inr ([LogResponseSize (real (byteLength s) / (1024 * 1024))]
            @ (if real (byteLength s) / (1024 * 1024) > 4.5 then [WarnExceeds] else []),
          real (byteLength s) / (1024 * 1024))"
  by (simp add: checkResponseSize_def Let_def)

lemma escape_json_letters:
  "escape_json (replicate n 0x61) = replicate n 0x61"
  by (induction n) (simp_all add: is_high_surrogate_def is_low_surrogate_def)

lemma byteLength_letters:
  "byteLength (replicate n 0x61 @ s) = n + byteLength s"
  by (induction n) simp_all

lemma byteLength_quoted_letters:
  "byteLength (quote_json (replicate n 0x61)) = n + 2"
  by (simp add: quote_json_def escape_json_letters byteLength_letters)

section \<open>The threshold of the size check\<close>

text \<open>
  Claim C3, as the specification states it: the byte length of the serialized result
  is compared with a threshold of 4,500,000 bytes. \<^verbatim>\<open>checkResponseSize\<close> divides by
  \<open>1024 * 1024\<close> and compares with 4.5: a string whose JSON text has 4,600,000 bytes
  gets no warning.
\<close>

theorem threshold_in_bytes_counterexample:
  "stringify (JStr (replicate 4599998 0x61)) = Some (quote_json (replicate 4599998 0x61))
   \<and> byteLength (quote_json (replicate 4599998 0x61)) = 4600000
   \<and> checkResponseSize (JStr (replicate 4599998 0x61))
       = Inr ([LogResponseSize (4600000 / (1024 * 1024))], 4600000 / (1024 * 1024))"
  by (simp add: checkResponseSize_bytes byteLength_quoted_letters)

text \<open>
  Claim C3, amended: \<^verbatim>\<open>checkResponseSize\<close> takes the UTF-8 byte length of the JSON
  text, returns it in units of \<open>1024 * 1024\<close> bytes and warns exactly when it is above
  4.5 of them, that is above 4,718,592 bytes; a result of 5,000,000 bytes gets the
  warning.
\<close>

theorem warning_above_4718592_bytes:
  assumes "stringify data = Some s"
  shows "\<exists>c. checkResponseSize data = Inr (c, real (byteLength s) / (1024 * 1024))
           \<and> (WarnExceeds \<in> set c \<longleftrightarrow> 4718592 < byteLength s)
           \<and> (byteLength s = 5000000 \<longrightarrow> WarnExceeds \<in> set c)"
proof -
  have "(real (byteLength s) / (1024 * 1024) > 4.5) = (4718592 < byteLength s)"
    by (simp add: field_simps)
  then show ?thesis
    by (auto simp: checkResponseSize_bytes [OF assms])
qed

theorem warning_above_4718592_bytes_witness:
  "stringify (JStr (replicate 4999998 0x61)) = Some (quote_json (replicate 4999998 0x61))
   \<and> byteLength (quote_json (replicate 4999998 0x61)) = 5000000
   \<and> (\<exists>c. checkResponseSize (JStr (replicate 4999998 0x61)) = Inr (c, 5000000 / (1024 * 1024))
         \<and> WarnExceeds \<in> set c)"
  using warning_above_4718592_bytes
          [of "JStr (replicate 4999998 0x61)" "quote_json (replicate 4999998 0x61)"]
  by (simp add: byteLength_quoted_letters)

section \<open>The size of a longer page\<close>

text \<open>
  Claim C9: the size that \<^verbatim>\<open>checkResponseSize\<close> reports does not decrease when one more
  record is appended to the items of a page, whatever the other properties of the
  page are.
\<close>

theorem size_grows_with_items:
  "\<exists>c1 m1 c2 m2.
     checkResponseSize (JObj (pre @ (js ''items'', JArr xs) # post)) = Inr (c1, m1)
   \<and> checkResponseSize (JObj (pre @ (js ''items'', JArr (xs @ [r])) # post)) = Inr (c2, m2)
   \<and> m1 \<le> m2"
proof -
  let ?t = "js ''['' @ join_comma (stringify_elems xs) @ js '']''"
  let ?t' = "js ''['' @ join_comma (stringify_elems (xs @ [r])) @ js '']''"
  have "byteLength ?t \<le> byteLength ?t'"
    by (simp only: stringify_elems_append stringify_elems.simps array_text_grows)
  moreover have "stringify (JArr xs) = Some ?t" "stringify (JArr (xs @ [r])) = Some ?t'"
    by simp_all
  moreover have "?t \<noteq> []" "?t' \<noteq> []" "clean_start ?t" "clean_start ?t'"
    by (simp_all add: js_def clean_start_def is_low_surrogate_def)
  ultimately obtain s s' where
    s: "stringify (JObj (pre @ (js ''items'', JArr xs) # post)) = Some s"
    and s': "stringify (JObj (pre @ (js ''items'', JArr (xs @ [r])) # post)) = Some s'"
    and le: "byteLength s \<le> byteLength s'"
    using object_text_grows [of "JArr xs" ?t "JArr (xs @ [r])" ?t' pre "js ''items''" post]
    by blast
  from le have "real (byteLength s) / (1024 * 1024) \<le> real (byteLength s') / (1024 * 1024)"
    by (simp add: divide_right_mono)
  with checkResponseSize_bytes [OF s] checkResponseSize_bytes [OF s'] show ?thesis
    by blast
qed



end
